theory Spec2Isabelle
  imports
    Complex_Main
    "HOL-Library.AList"
    "HOL-Library.List_Lexorder"
    "HOL-Library.Char_ord"
    "HOL-Library.Multiset"
begin

section \<open>Data model of the budget dashboard (src/src/App.jsx)\<close>

text \<open>
  Amounts are JavaScript numbers. The model takes the finite ones, as exact rationals:
  rounding of IEEE doubles is not modelled, and the ledger holds no \<open>NaN\<close> or infinity.
  A number that arrives from an input field may still be one of those, so the arguments
  of the entry operations have the type \<open>jsnum\<close>.
\<close>

type_synonym amount = rat

datatype jsnum = Num amount | NaN | PosInfinity | NegInfinity

text \<open>
  A plain JavaScript object with string keys is an association list with one entry per
  key; \<open>map_of\<close> reads a property, \<open>AList.update\<close> writes one (in place when the key
  exists, appended otherwise). The order in which JavaScript enumerates keys that look
  like array indices is not modelled; the results below are stated through \<open>map_of\<close>.
\<close>

type_synonym 'v obj = "(string \<times> 'v) list"

text \<open>The shape \<open>{income, saving, investment, expense}\<close> shared by templates and month records.\<close>

record 'a buckets =
  income :: 'a
  saving :: 'a
  investment :: 'a
  expense :: 'a

type_synonym templates = "string list buckets"
type_synonym month = "amount obj buckets"

record ledger =
  months :: "month obj"

datatype kind = Income | Saving | Investment | Expense

text \<open>\<open>o[kind]\<close> and \<open>{ ...o, [kind]: v }\<close> for the four fixed keys.\<close>

fun get_bucket :: "kind \<Rightarrow> 'a buckets \<Rightarrow> 'a" where
  "get_bucket Income b = income b"
| "get_bucket Saving b = saving b"
| "get_bucket Investment b = investment b"
| "get_bucket Expense b = expense b"

fun set_bucket :: "kind \<Rightarrow> 'a \<Rightarrow> 'a buckets \<Rightarrow> 'a buckets" where
  "set_bucket Income v b = b\<lparr>income := v\<rparr>"
| "set_bucket Saving v b = b\<lparr>saving := v\<rparr>"
| "set_bucket Investment v b = b\<lparr>investment := v\<rparr>"
| "set_bucket Expense v b = b\<lparr>expense := v\<rparr>"

definition BASE_TEMPLATES :: templates where
  "BASE_TEMPLATES =
     \<lparr>income = [''Salary'', ''Cash'', ''Music'', ''Fitness'', ''Carry Over''],
      saving = [''Saving Blanket'', ''Cash'', ''Current''],
      investment = [''Apt Valuation'', ''Bitcoin'', ''Stocks'', ''Pension Valuation''],
      expense = [''Mortgage'', ''Jiujitsu'', ''CrossFit'', ''Food Shop'', ''Leisure/Concert'',
                 ''Company car (N/A)'', ''TV/Mobile/Apps'', ''Supplements'', ''BONGO Dog'',
                 ''Electricity'', ''Other'', ''Takeaway'']\<rparr>"

text \<open>The memo \<open>TEMPLATES\<close>: the built-in names followed by the remembered custom names.\<close>

definition TEMPLATES :: "templates \<Rightarrow> templates" where
  "TEMPLATES userTemplates =
     \<lparr>income = income BASE_TEMPLATES @ income userTemplates,
      saving = saving BASE_TEMPLATES @ saving userTemplates,
      investment = investment BASE_TEMPLATES @ investment userTemplates,
      expense = expense BASE_TEMPLATES @ expense userTemplates\<rparr>"

text \<open>Object spread \<open>{ ...a, ...b }\<close> and \<open>Object.fromEntries\<close>.\<close>

definition spread :: "'v obj \<Rightarrow> 'v obj \<Rightarrow> 'v obj" where
  "spread a b = fold (\<lambda>(k, v). AList.update k v) b a"

definition fromEntries :: "'v obj \<Rightarrow> 'v obj" where
  "fromEntries es = spread [] es"

definition emptyMonth :: "templates \<Rightarrow> month" where
  "emptyMonth t =
     \<lparr>income = fromEntries (map (\<lambda>c. (c, 0)) (income t)),
      saving = fromEntries (map (\<lambda>c. (c, 0)) (saving t)),
      investment = fromEntries (map (\<lambda>c. (c, 0)) (investment t)),
      expense = fromEntries (map (\<lambda>c. (c, 0)) (expense t))\<rparr>"

text \<open>\<open>createInitialData\<close>; the key of the current calendar month is a parameter.\<close>

definition createInitialData :: "string \<Rightarrow> templates \<Rightarrow> ledger" where
  "createInitialData monthKey t = \<lparr>months = [(monthKey, emptyMonth t)]\<rparr>"

subsection \<open>Lazy creation of the selected month\<close>

text \<open>
  \<open>Object.keys(prev.months).sort().filter((k) => k < selectedMonth).pop()\<close>: strings
  compare lexicographically by code unit, \<open>pop\<close> of an empty array is \<open>undefined\<close>.
\<close>

definition prevKeyOf :: "month obj \<Rightarrow> string \<Rightarrow> string option" where
  "prevKeyOf ms selectedMonth =
     (let keys = sort (map fst ms);
          earlier = filter (\<lambda>k. k < selectedMonth) keys
      in if earlier = [] then None else Some (last earlier))"

text \<open>
  The updater passed to \<open>setData\<close> by the effect. \<open>prevKey ? ... : ...\<close> is false for
  \<open>undefined\<close> and for the empty string. A key found by \<open>prevKeyOf\<close> is a key of
  \<open>prev.months\<close>, so the lookup under it succeeds.
\<close>

definition createMonth :: "templates \<Rightarrow> string \<Rightarrow> ledger \<Rightarrow> ledger" where
  "createMonth t selectedMonth prev =
     (let carry = (case prevKeyOf (months prev) selectedMonth of
                     None \<Rightarrow> emptyMonth t
                   | Some prevKey \<Rightarrow>
                       if prevKey = [] then emptyMonth t
                       else (case map_of (months prev) prevKey of
                               Some r \<Rightarrow> r
                             | None \<Rightarrow> emptyMonth t));
          nextMonth = emptyMonth t;
          nextMonth = nextMonth\<lparr>saving := spread (saving nextMonth) (saving carry)\<rparr>;
          nextMonth = nextMonth\<lparr>investment := spread (investment nextMonth) (investment carry)\<rparr>
      in \<lparr>months = AList.update selectedMonth nextMonth (months prev)\<rparr>)"

text \<open>The effect itself: nothing happens when the selected month has a record.\<close>

definition ensureMonth :: "templates \<Rightarrow> string \<Rightarrow> ledger \<Rightarrow> ledger" where
  "ensureMonth t selectedMonth d =
     (case map_of (months d) selectedMonth of
        Some r \<Rightarrow> d
      | None \<Rightarrow> createMonth t selectedMonth d)"

subsection \<open>Month keys and the fiscal-year window\<close>

text \<open>
  A month key is built by the template literal
  \<open>`${d.getFullYear()}-${String(d.getMonth() + 1).padStart(2, '0')}`\<close>: the year in
  decimal without padding, a dash, the month number padded to two digits.
\<close>

definition digit_char :: "nat \<Rightarrow> char" where
  "digit_char d = char_of (48 + d)"

definition is_digit :: "char \<Rightarrow> bool" where
  "is_digit c = (48 \<le> (of_char c :: nat) \<and> (of_char c :: nat) \<le> 57)"

definition digit_val :: "char \<Rightarrow> nat" where
  "digit_val c = of_char c - 48"

fun string_of_nat :: "nat \<Rightarrow> string" where
  "string_of_nat n =
     (if n < 10 then [digit_char n] else string_of_nat (n div 10) @ [digit_char (n mod 10)])"

declare string_of_nat.simps [simp del]

definition string_of_int :: "int \<Rightarrow> string" where
  "string_of_int i = (if i < 0 then CHR ''-'' # string_of_nat (nat (- i)) else string_of_nat (nat i))"

definition padStart2 :: "string \<Rightarrow> string" where
  "padStart2 s = replicate (2 - length s) CHR ''0'' @ s"

definition month_key :: "int \<Rightarrow> nat \<Rightarrow> string" where
  "month_key fullYear monthNo = string_of_int fullYear @ ''-'' @ padStart2 (string_of_nat monthNo)"

text \<open>
  \<open>new Date(year, monthIndex, 1)\<close> read back with \<open>getFullYear()\<close> and \<open>getMonth()\<close>:
  a month index outside 0..11 carries into the year, and a year from 0 to 99 means
  1900 + year. Both are read in local time, as the date was built. The limits of the
  Date range (about 275000 years either way) are not modelled.
\<close>

definition Date_ym :: "int \<Rightarrow> int \<Rightarrow> int \<times> nat" where
  "Date_ym year monthIndex =
     (let y = (if 0 \<le> year \<and> year \<le> 99 then 1900 + year else year)
      in (y + monthIndex div 12, nat (monthIndex mod 12)))"

definition key_of_Date :: "int \<Rightarrow> int \<Rightarrow> string" where
  "key_of_Date year monthIndex =
     (case Date_ym year monthIndex of (fullYear, m) \<Rightarrow> month_key fullYear (m + 1))"

text \<open>\<open>s.split('-')\<close>.\<close>

primrec split_on :: "char \<Rightarrow> string \<Rightarrow> string list" where
  "split_on c [] = [[]]"
| "split_on c (x # xs) =
     (if x = c then [] # split_on c xs
      else (case split_on c xs of [] \<Rightarrow> [[x]] | p # ps \<Rightarrow> (x # p) # ps))"

text \<open>
  \<open>Number(s)\<close> on a string of decimal digits (the empty string gives 0). \<open>None\<close> stands
  for every other string; the parts of a month key are digit strings.
\<close>

definition Number_digits :: "string \<Rightarrow> nat option" where
  "Number_digits s =
     (if list_all is_digit s then Some (foldl (\<lambda>n c. 10 * n + digit_val c) 0 s) else None)"

text \<open>\<open>const [y, m] = monthKey.split('-').map(Number)\<close>.\<close>

definition parse_month_key :: "string \<Rightarrow> (nat \<times> nat) option" where
  "parse_month_key monthKey =
     (case map Number_digits (split_on CHR ''-'' monthKey) of
        Some y # Some m # rest \<Rightarrow> Some (y, m)
      | _ \<Rightarrow> None)"

record settings =
  currency :: string
  fyStartMonth :: nat
  showMoMColors :: bool
  compactMode :: bool

definition default_settings :: settings where
  "default_settings = \<lparr>currency = ''EUR'', fyStartMonth = 1, showMoMColors = True, compactMode = False\<rparr>"


text \<open>\<open>shiftMonth(delta)\<close> and \<open>prevMonthKey(key)\<close> compute a key the same way.\<close>

definition shifted_key :: "string \<Rightarrow> int \<Rightarrow> string option" where
  "shifted_key monthKey delta =
     (case parse_month_key monthKey of
        None \<Rightarrow> None
      | Some (y, m) \<Rightarrow> Some (key_of_Date (int y) (int m - 1 + delta)))"

definition prevMonthKey :: "string \<Rightarrow> string option" where
  "prevMonthKey key = shifted_key key (- 1)"



text \<open>A ledger with the single month 2024-03, for examples.\<close>

definition ledger_2024_03 :: ledger where
  "ledger_2024_03 =
     \<lparr>months = [(''2024-03'',
        \<lparr>income = [(''Salary'', 3000)], saving = [(''Current'', 500)],
         investment = [], expense = [(''Mortgage'', 1000)]\<rparr>)]\<rparr>"

subsection \<open>Aggregation for the view\<close>

text \<open>\<open>x || 0\<close> for a property \<open>x\<close> that is missing or a finite number.\<close>

fun or0 :: "amount option \<Rightarrow> amount" where
  "or0 None = 0"
| "or0 (Some a) = a"

text \<open>\<open>acc[k][cat] = (acc[k][cat] || 0) + Number(val)\<close>.\<close>

definition add_entry :: "string \<times> amount \<Rightarrow> amount obj \<Rightarrow> amount obj" where
  "add_entry e acc = (case e of (cat, val) \<Rightarrow> AList.update cat (or0 (map_of acc cat) + val) acc)"

text \<open>The loop over \<open>Object.keys(acc)\<close>, and inside it over the entries of \<open>month[k]\<close>.\<close>

definition add_month :: "month \<Rightarrow> month \<Rightarrow> month" where
  "add_month month acc =
     \<lparr>income = fold add_entry (income month) (income acc),
      saving = fold add_entry (saving month) (saving acc),
      investment = fold add_entry (investment month) (investment acc),
      expense = fold add_entry (expense month) (expense acc)\<rparr>"

text \<open>The memo \<open>aggregated\<close>: months that the ledger lacks are skipped.\<close>

definition aggregated :: "string list \<Rightarrow> ledger \<Rightarrow> month" where
  "aggregated monthKeysForView d =
     fold (\<lambda>m acc. case map_of (months d) m of None \<Rightarrow> acc | Some month \<Rightarrow> add_month month acc)
       monthKeysForView
       \<lparr>income = [], saving = [], investment = [], expense = []\<rparr>"

text \<open>\<open>sum(obj)\<close>, and the cash flow shown under the charts.\<close>

definition sum_obj :: "amount obj \<Rightarrow> amount" where
  "sum_obj ob = fold (\<lambda>b a. a + b) (map snd ob) 0"

definition cashFlow :: "month \<Rightarrow> amount" where
  "cashFlow agg = sum_obj (income agg) - sum_obj (expense agg)"

text \<open>
  The sum of two category totals as the specification words it: a category missing on
  one side contributes nothing.
\<close>

fun opt_plus :: "amount option \<Rightarrow> amount option \<Rightarrow> amount option" where
  "opt_plus None y = y"
| "opt_plus (Some a) None = Some a"
| "opt_plus (Some a) (Some b) = Some (a + b)"




subsection \<open>Application state and the entry operations\<close>

text \<open>
  \<open>breakdown.bucket\<close> is \<open>'expense'\<close>, \<open>'income'\<close>, \<open>'saving-invest'\<close> or \<open>null\<close>
  (\<open>mapTitleToBucket\<close>); \<open>None\<close> stands for \<open>null\<close>.
\<close>

datatype bucket = Bucket kind | SavingInvest

text \<open>
  The functions of the component close over the values of the render in which they were
  created. \<open>updateAmount\<close> reads \<open>data\<close>, \<open>TEMPLATES\<close>, \<open>selectedMonth\<close> and
  \<open>breakdown.bucket\<close> from there; an undo action kept in the snackbar is the closure
  \<open>() => updateAmount(cat, oldVal)\<close> of the render that registered it.
\<close>

record render =
  r_data :: ledger
  r_TEMPLATES :: templates
  r_selectedMonth :: string
  r_bucket :: "bucket option"

datatype undo = Undo render string amount

text \<open>
  The state held by the hooks. The snackbar's label and its five-second timer are left
  out, and so are the form fields, which the operations below take as arguments.
\<close>

record state =
  data :: ledger
  userTemplates :: templates
  settings :: settings
  selectedMonth :: string
  breakdown_bucket :: "bucket option"
  snackbar :: "undo option"

definition render_of :: "state \<Rightarrow> render" where
  "render_of s =
     \<lparr>r_data = data s, r_TEMPLATES = TEMPLATES (userTemplates s),
      r_selectedMonth = selectedMonth s, r_bucket = breakdown_bucket s\<rparr>"

text \<open>\<open>months[selectedMonth] || emptyMonth(TEMPLATES)\<close>.\<close>

definition month_or_empty :: "templates \<Rightarrow> string \<Rightarrow> ledger \<Rightarrow> month" where
  "month_or_empty t monthKey d =
     (case map_of (months d) monthKey of Some m \<Rightarrow> m | None \<Rightarrow> emptyMonth t)"

definition currentMonthBucket :: "render \<Rightarrow> month" where
  "currentMonthBucket r = month_or_empty (r_TEMPLATES r) (r_selectedMonth r) (r_data r)"

text \<open>The snapshot \<open>oldVal\<close> taken by \<open>updateAmount\<close> and \<open>deleteAmount\<close>.\<close>

definition oldVal :: "render \<Rightarrow> bucket \<Rightarrow> string \<Rightarrow> amount" where
  "oldVal r b cat =
     (let before = currentMonthBucket r
      in case b of
           SavingInvest \<Rightarrow> or0 (map_of (saving before) cat) + or0 (map_of (investment before) cat)
         | Bucket k \<Rightarrow> or0 (map_of (get_bucket k before) cat))"

text \<open>
  \<open>Number(newAmtNum) || 0\<close>, the value that \<open>updateAmount\<close> stores: \<open>NaN\<close> becomes 0.
  An infinity would be stored as it is; the ledger of this model holds finite amounts
  only, so the result is \<open>None\<close> there.
\<close>

fun stored_amount :: "jsnum \<Rightarrow> amount option" where
  "stored_amount (Num a) = Some a"
| "stored_amount NaN = Some 0"
| "stored_amount PosInfinity = None"
| "stored_amount NegInfinity = None"

text \<open>\<open>applyTo(k)\<close> inside the updater of \<open>updateAmount\<close>.\<close>

definition applyTo :: "string \<Rightarrow> month \<Rightarrow> string \<Rightarrow> amount \<Rightarrow> kind \<Rightarrow> ledger \<Rightarrow> ledger" where
  "applyTo monthKey base cat v k next =
     (let m = set_bucket k (AList.update cat v (get_bucket k base)) base
      in next\<lparr>months := AList.update monthKey m (months next)\<rparr>)"

text \<open>The updater that \<open>updateAmount\<close> passes to \<open>setData\<close>.\<close>

definition update_data :: "render \<Rightarrow> bucket \<Rightarrow> string \<Rightarrow> amount \<Rightarrow> ledger \<Rightarrow> ledger" where
  "update_data r b cat v prev =
     (let base = month_or_empty (r_TEMPLATES r) (r_selectedMonth r) prev
      in case b of
           SavingInvest \<Rightarrow>
             if map_of (saving base) cat \<noteq> None
               then applyTo (r_selectedMonth r) base cat v Saving prev
             else if map_of (investment base) cat \<noteq> None
               then applyTo (r_selectedMonth r) base cat v Investment prev
             else if cat \<in> set (saving (r_TEMPLATES r))
               then applyTo (r_selectedMonth r) base cat v Saving prev
             else applyTo (r_selectedMonth r) base cat v Investment prev
         | Bucket k \<Rightarrow> applyTo (r_selectedMonth r) base cat v k prev)"

text \<open>
  \<open>updateAmount(cat, newAmtNum)\<close> as created by render \<open>r\<close>, run on the current state:
  nothing happens without a bucket; otherwise the ledger is updated and the undo action
  is put in the snackbar.
\<close>

definition updateAmount :: "render \<Rightarrow> string \<Rightarrow> jsnum \<Rightarrow> state \<Rightarrow> state option" where
  "updateAmount r cat newAmtNum s =
     (case r_bucket r of
        None \<Rightarrow> Some s
      | Some b \<Rightarrow>
          (case stored_amount newAmtNum of
             None \<Rightarrow> None
           | Some v \<Rightarrow>
               Some (s\<lparr>data := update_data r b cat v (data s),
                       snackbar := Some (Undo r cat (oldVal r b cat))\<rparr>)))"

text \<open>
  \<open>deleteAmount(cat)\<close>: \<open>updateAmount(cat, 0)\<close>, then its own undo action replaces the
  one just registered. Without a bucket, \<open>before[bucket]?.[cat]\<close> is \<open>undefined\<close>.
\<close>

definition deleteAmount :: "render \<Rightarrow> string \<Rightarrow> state \<Rightarrow> state option" where
  "deleteAmount r cat s =
     (let old = (case r_bucket r of None \<Rightarrow> 0 | Some b \<Rightarrow> oldVal r b cat)
      in case updateAmount r cat (Num 0) s of
           None \<Rightarrow> None
         | Some s' \<Rightarrow> Some (s'\<lparr>snackbar := Some (Undo r cat old)\<rparr>))"

text \<open>The snackbar's Undo button: \<open>snackbar.undo?.(); setSnackbar(null)\<close>.\<close>

definition clickUndo :: "state \<Rightarrow> state option" where
  "clickUndo s =
     (case snackbar s of
        None \<Rightarrow> Some s
      | Some (Undo r cat v) \<Rightarrow>
          (case updateAmount r cat (Num v) s of
             None \<Rightarrow> None
           | Some s' \<Rightarrow> Some (s'\<lparr>snackbar := None\<rparr>)))"

text \<open>
  \<open>s.trim()\<close>, for the ASCII white space (space, tab, line feed, vertical tab, form
  feed, carriage return).
\<close>

definition is_space :: "char \<Rightarrow> bool" where
  "is_space c = (c \<in> set [CHR '' '', CHR 0x09, CHR 0x0A, CHR 0x0B, CHR 0x0C, CHR 0x0D])"

definition trim :: "string \<Rightarrow> string" where
  "trim s = rev (dropWhile is_space (rev (dropWhile is_space s)))"

text \<open>\<open>Array.from(new Set(xs))\<close>: the first occurrence of each element is kept.\<close>

fun uniq :: "string list \<Rightarrow> string list \<Rightarrow> string list" where
  "uniq seen [] = rev seen"
| "uniq seen (x # xs) = (if x \<in> set seen then uniq seen xs else uniq (x # seen) xs)"

text \<open>The updater that \<open>addItem\<close> passes to \<open>setData\<close>.\<close>

definition add_data :: "render \<Rightarrow> kind \<Rightarrow> string \<Rightarrow> amount \<Rightarrow> ledger \<Rightarrow> ledger" where
  "add_data r k catToUse amt prev =
     (let base = month_or_empty (r_TEMPLATES r) (r_selectedMonth r) prev;
          m = set_bucket k
                (AList.update catToUse (or0 (map_of (get_bucket k base) catToUse) + amt)
                   (get_bucket k base))
                base
      in prev\<lparr>months := AList.update (r_selectedMonth r) m (months prev)\<rparr>)"

text \<open>
  \<open>addItem(kind)\<close> as created by render \<open>r\<close>. The form fields are arguments: \<open>newCat\<close>,
  \<open>newOther\<close>, the number \<open>amt = Number(newAmt)\<close> and the check box
  \<open>rememberSubheading\<close>; \<open>kind = None\<close> stands for a missing kind. The guard returns
  before anything is set. The undo action calls \<open>updateAmount\<close> of the same render.
\<close>

definition addItem ::
  "render \<Rightarrow> kind option \<Rightarrow> string \<Rightarrow> string \<Rightarrow> jsnum \<Rightarrow> bool \<Rightarrow> state \<Rightarrow> state" where
  "addItem r kind newCat newOther amt rememberSubheading s =
     (let catToUse = (if newOther \<noteq> [] \<and> trim newOther \<noteq> [] then trim newOther else newCat)
      in case (kind, amt) of
           (Some k, Num a) \<Rightarrow>
             if catToUse = [] then s
             else
               (let prevMonth = currentMonthBucket r;
                    prevVal = or0 (map_of (get_bucket k prevMonth) catToUse);
                    s1 = s\<lparr>data := add_data r k catToUse a (data s),
                            snackbar := Some (Undo r catToUse prevVal)\<rparr>
                in if newOther \<noteq> [] \<and> rememberSubheading
                   then s1\<lparr>userTemplates :=
                          set_bucket k (uniq [] (get_bucket k (userTemplates s1) @ [trim newOther]))
                            (userTemplates s1)\<rparr>
                   else s1)
         | _ \<Rightarrow> s)"

subsection \<open>Selecting a month, resets\<close>

text \<open>
  \<open>setSelectedMonth(key)\<close> followed by the effect that ensures the selected month, and
  \<open>shiftMonth(delta)\<close>, which computes the key first.
\<close>

definition selectMonth :: "string \<Rightarrow> state \<Rightarrow> state" where
  "selectMonth key s =
     s\<lparr>selectedMonth := key, data := ensureMonth (TEMPLATES (userTemplates s)) key (data s)\<rparr>"

definition shiftMonth :: "int \<Rightarrow> state \<Rightarrow> state option" where
  "shiftMonth delta s =
     (case shifted_key (selectedMonth s) delta of
        None \<Rightarrow> None
      | Some key \<Rightarrow> Some (selectMonth key s))"

definition no_templates :: templates where
  "no_templates = \<lparr>income = [], saving = [], investment = [], expense = []\<rparr>"

text \<open>The first render with nothing in local storage; \<open>monthKey\<close> is the current month.\<close>

definition initial_state :: "string \<Rightarrow> state" where
  "initial_state monthKey =
     \<lparr>data = createInitialData monthKey (TEMPLATES no_templates), userTemplates = no_templates,
      settings = default_settings, selectedMonth = monthKey, breakdown_bucket = None,
      snackbar = None\<rparr>"


definition resetData :: "string \<Rightarrow> bool \<Rightarrow> state \<Rightarrow> state" where
  "resetData monthKey confirmed s =
     (if \<not> confirmed then s
      else s\<lparr>data := createInitialData monthKey (TEMPLATES (userTemplates s))\<rparr>)"

text \<open>
  The invariant of the specification's data model: every category of the current
  Template Store of a bucket has an entry in that bucket of every month record.
\<close>

definition template_invariant :: "state \<Rightarrow> bool" where
  "template_invariant s =
     (\<forall>(key, rec) \<in> set (months (data s)). \<forall>k \<in> {Income, Saving, Investment, Expense}.
        \<forall>c \<in> set (get_bucket k (TEMPLATES (userTemplates s))). map_of (get_bucket k rec) c \<noteq> None)"

text \<open>The owner of a category in the combined view, in the specification's words.\<close>

definition owner_of :: "month \<Rightarrow> templates \<Rightarrow> string \<Rightarrow> kind" where
  "owner_of rec t cat =
     (if cat \<in> fst ` set (saving rec) then Saving
      else if cat \<in> fst ` set (investment rec) then Investment
      else if cat \<in> set (saving t) then Saving
      else Investment)"

text \<open>The specification's scenario for undo: 2024-01 with Salary 3000 and Rent 1000.\<close>

definition scenario_state :: state where
  "scenario_state =
     \<lparr>data = \<lparr>months = [(''2024-01'',
          \<lparr>income = [(''Salary'', 3000)], saving = [], investment = [],
           expense = [(''Rent'', 1000)]\<rparr>)]\<rparr>,
      userTemplates = no_templates, settings = default_settings, selectedMonth = ''2024-01'',
      breakdown_bucket = None, snackbar = None\<rparr>"

subsection \<open>Backup and import\<close>


















subsection \<open>States and ledgers used in examples\<close>


text \<open>The undo scenario with the expense breakdown open.\<close>

definition expense_open_state :: state where
  "expense_open_state = scenario_state\<lparr>breakdown_bucket := Some (Bucket Expense)\<rparr>"

text \<open>A month that has the category Cash both as saving and as investment, shown in the
  combined breakdown.\<close>

definition both_cash_state :: state where
  "both_cash_state =
     \<lparr>data = \<lparr>months = [(''2024-01'',
          \<lparr>income = [], saving = [(''Cash'', 100)], investment = [(''Cash'', 50)],
           expense = []\<rparr>)]\<rparr>,
      userTemplates = no_templates\<lparr>investment := [''Cash'']\<rparr>, settings = default_settings,
      selectedMonth = ''2024-01'', breakdown_bucket = Some SavingInvest, snackbar = None\<rparr>"

text \<open>
  For the invariant on templates: every entry of every month record of \<open>d\<close> is still
  there in \<open>d'\<close> (its amount may differ).
\<close>

definition entries_kept :: "ledger \<Rightarrow> ledger \<Rightarrow> bool" where
  "entries_kept d d' =
     (\<forall>m rec. map_of (months d) m = Some rec \<longrightarrow>
        (\<exists>rec'. map_of (months d') m = Some rec'
           \<and> (\<forall>k c. map_of (get_bucket k rec) c \<noteq> None \<longrightarrow> map_of (get_bucket k rec') c \<noteq> None)))"

text \<open>
  From the first render in 2024-01: one month forward, then a new expense entry under the
  custom name Gym, remembered as a subheading.
\<close>

definition gym_state :: state where
  "gym_state =
     (let s1 = selectMonth ''2024-02'' (initial_state ''2024-01'')
      in addItem (render_of s1) (Some Expense) [] ''Gym'' (Num 10) True s1)"

section \<open>Properties\<close>

subsection \<open>Objects\<close>

lemma map_of_spread: "map_of (spread a b) = map_of a ++ map_of (rev b)"
  unfolding spread_def
proof (induction b arbitrary: a)
  case Nil
  show ?case by simp
next
  case (Cons e b)
  obtain k v where e: "e = (k, v)" by (cases e)
  have "map_of (fold (\<lambda>(k, v). AList.update k v) b (AList.update k v a))
        = map_of (AList.update k v a) ++ map_of (rev b)"
    by (rule Cons.IH)
  also have "\<dots> = map_of a ++ map_of (rev ((k, v) # b))"
    by (rule ext) (simp add: update_conv' map_add_def split: option.splits)
  finally show ?case by (simp add: e)
qed

lemma map_of_zero_entries:
  "map_of (fromEntries (map (\<lambda>c. (c, 0::amount)) cs)) c = (if c \<in> set cs then Some 0 else None)"
proof -
  have "map_of (rev (map (\<lambda>c. (c, 0::amount)) cs)) c = (if c \<in> set cs then Some 0 else None)"
    by (induction cs) (auto simp: map_add_def split: option.splits)
  then show ?thesis by (simp add: fromEntries_def map_of_spread)
qed

subsection \<open>Creating a month record\<close>












subsection \<open>The fiscal-year window\<close>

lemma digit_val_digit_char: "d < 10 \<Longrightarrow> digit_val (digit_char d) = d"
  by (simp add: digit_val_def digit_char_def)

lemma is_digit_digit_char: "d < 10 \<Longrightarrow> is_digit (digit_char d)"
  by (simp add: is_digit_def digit_char_def)

lemma dash_not_digit: "\<not> is_digit CHR ''-''"
  by (simp add: is_digit_def)

lemma is_digit_zero: "is_digit CHR ''0''" "digit_val CHR ''0'' = 0"
  by (simp_all add: is_digit_def digit_val_def)

lemma digits_string_of_nat: "list_all is_digit (string_of_nat n)"
proof (induction n rule: string_of_nat.induct)
  case (1 n)
  show ?case
  proof (cases "n < 10")
    case True
    then show ?thesis by (subst string_of_nat.simps) (simp add: is_digit_digit_char)
  next
    case False
    with 1 show ?thesis by (subst string_of_nat.simps) (simp add: is_digit_digit_char)
  qed
qed

lemma value_string_of_nat: "foldl (\<lambda>n c. 10 * n + digit_val c) 0 (string_of_nat n) = n"
proof (induction n rule: string_of_nat.induct)
  case (1 n)
  show ?case
  proof (cases "n < 10")
    case True
    then show ?thesis by (subst string_of_nat.simps) (simp add: digit_val_digit_char)
  next
    case False
    with 1 show ?thesis by (subst string_of_nat.simps) (simp add: digit_val_digit_char)
  qed
qed

lemma Number_string_of_nat: "Number_digits (string_of_nat n) = Some n"
  by (simp add: Number_digits_def digits_string_of_nat value_string_of_nat)

lemma value_zeros:
  "foldl (\<lambda>n c. 10 * n + digit_val c) 0 (replicate k CHR ''0'' @ s)
   = foldl (\<lambda>n c. 10 * n + digit_val c) 0 s"
  by (induction k) (simp_all add: is_digit_zero)

lemma digits_padStart2: "list_all is_digit (padStart2 (string_of_nat n))"
  using digits_string_of_nat [of n] by (auto simp: padStart2_def list_all_iff is_digit_zero)

lemma Number_padStart2: "Number_digits (padStart2 (string_of_nat n)) = Some n"
proof -
  have "foldl (\<lambda>n c. 10 * n + digit_val c) 0 (padStart2 (string_of_nat n)) = n"
    unfolding padStart2_def by (simp only: value_zeros value_string_of_nat)
  then show ?thesis by (simp add: Number_digits_def digits_padStart2)
qed

lemma no_dash_digits: "list_all is_digit s \<Longrightarrow> CHR ''-'' \<notin> set s"
  using dash_not_digit by (auto simp: list_all_iff)

lemma split_on_none: "c \<notin> set s \<Longrightarrow> split_on c s = [s]"
  by (induction s) auto

lemma split_on_first: "c \<notin> set a \<Longrightarrow> split_on c (a @ c # b) = a # split_on c b"
  by (induction a) auto

lemma parse_month_key_month_key: "parse_month_key (month_key (int y) m) = Some (y, m)"
proof -
  have a: "CHR ''-'' \<notin> set (string_of_nat y)"
    by (rule no_dash_digits) (rule digits_string_of_nat)
  have b: "CHR ''-'' \<notin> set (padStart2 (string_of_nat m))"
    by (rule no_dash_digits) (rule digits_padStart2)
  have "split_on CHR ''-'' (month_key (int y) m) = [string_of_nat y, padStart2 (string_of_nat m)]"
    using split_on_first [OF a] split_on_none [OF b] by (simp add: month_key_def string_of_int_def)
  then show ?thesis
    by (simp add: parse_month_key_def Number_string_of_nat Number_padStart2)
qed








lemma digit_chars:
  "digit_char 0 = CHR ''0''" "digit_char 1 = CHR ''1''" "digit_char 2 = CHR ''2''"
  "digit_char 3 = CHR ''3''" "digit_char 4 = CHR ''4''" "digit_char 5 = CHR ''5''"
  "digit_char 6 = CHR ''6''" "digit_char 7 = CHR ''7''" "digit_char 8 = CHR ''8''"
  "digit_char 9 = CHR ''9''"
  by code_simp+

lemma digit_char_Suc_0: "digit_char (Suc 0) = CHR ''1''"
  using digit_chars(2) by simp







lemma month_keys_fy2023:
  "month_key 2023 4 = ''2023-04''" "month_key 2023 5 = ''2023-05''" "month_key 2023 6 = ''2023-06''"
  "month_key 2023 7 = ''2023-07''" "month_key 2023 8 = ''2023-08''" "month_key 2023 9 = ''2023-09''"
  "month_key 2023 10 = ''2023-10''" "month_key 2023 11 = ''2023-11''" "month_key 2023 12 = ''2023-12''"
  "month_key 2024 1 = ''2024-01''" "month_key 2024 2 = ''2024-02''" "month_key 2024 3 = ''2024-03''"
  by (simp_all add: month_key_def string_of_int_def padStart2_def string_of_nat.simps digit_chars
      digit_char_Suc_0)



text \<open>
  Every identifier of the form YYYY-MM whose year does not start with 0 is the key that
  the code builds for its year and month number, so the theorem above speaks about all
  of them.
\<close>

lemma digit_char_digit_val: "is_digit c \<Longrightarrow> digit_char (digit_val c) = c"
  by (simp add: is_digit_def digit_char_def digit_val_def)

lemma digit_val_less: "is_digit c \<Longrightarrow> digit_val c < 10"
  by (auto simp: is_digit_def digit_val_def)

lemma digit_val_pos: "is_digit c \<Longrightarrow> c \<noteq> CHR ''0'' \<Longrightarrow> 0 < digit_val c"
proof -
  assume d: "is_digit c" and n: "c \<noteq> CHR ''0''"
  have "digit_val c = 0 \<Longrightarrow> c = CHR ''0''"
    using digit_char_digit_val [OF d] digit_chars(1) by simp
  with n show ?thesis by auto
qed

lemma value_pos:
  "s \<noteq> [] \<Longrightarrow> list_all is_digit s \<Longrightarrow> hd s \<noteq> CHR ''0''
   \<Longrightarrow> 0 < foldl (\<lambda>n c. 10 * n + digit_val c) 0 s"
proof (induction s rule: rev_induct)
  case Nil
  then show ?case by simp
next
  case (snoc c s)
  show ?case
  proof (cases "s = []")
    case True
    with snoc.prems show ?thesis by (simp add: digit_val_pos)
  next
    case False
    with snoc show ?thesis by simp
  qed
qed

lemma string_of_nat_value:
  "s \<noteq> [] \<Longrightarrow> list_all is_digit s \<Longrightarrow> hd s \<noteq> CHR ''0''
   \<Longrightarrow> string_of_nat (foldl (\<lambda>n c. 10 * n + digit_val c) 0 s) = s"
proof (induction s rule: rev_induct)
  case Nil
  then show ?case by simp
next
  case (snoc c s)
  let ?v = "foldl (\<lambda>n c. 10 * n + digit_val c) 0 s"
  have c: "is_digit c" using snoc.prems by simp
  show ?case
  proof (cases "s = []")
    case True
    then show ?thesis
      using c by (simp add: string_of_nat.simps [of "digit_val c"] digit_val_less digit_char_digit_val)
  next
    case False
    with snoc.prems have p: "0 < ?v" by (intro value_pos) simp_all
    have ih: "string_of_nat ?v = s" using snoc False by simp
    have d: "(10 * ?v + digit_val c) div 10 = ?v" "(10 * ?v + digit_val c) mod 10 = digit_val c"
      using digit_val_less [OF c] by simp_all
    have "\<not> 10 * ?v + digit_val c < 10" using p by simp
    then show ?thesis
      by (simp add: string_of_nat.simps [of "10 * ?v + digit_val c"] d ih digit_char_digit_val [OF c]
          digit_val_less [OF c])
  qed
qed


lemma value_4_digits:
  assumes "list_all is_digit ys" "length ys = 4" "hd ys \<noteq> CHR ''0''"
  shows "1000 \<le> foldl (\<lambda>n c. 10 * n + digit_val c) 0 ys
       \<and> foldl (\<lambda>n c. 10 * n + digit_val c) 0 ys \<le> 9999"
proof -
  obtain a b c d where ys: "ys = [a, b, c, d]"
    using assms(2) by (auto simp: length_Suc_conv numeral_eq_Suc)
  have "0 < digit_val a" "digit_val a < 10" "digit_val b < 10" "digit_val c < 10" "digit_val d < 10"
    using assms(1,3) by (simp_all add: ys digit_val_pos digit_val_less)
  then show ?thesis by (simp add: ys)
qed

lemma padStart2_2_digits:
  assumes "list_all is_digit ms" "length ms = 2"
  shows "padStart2 (string_of_nat (foldl (\<lambda>n c. 10 * n + digit_val c) 0 ms)) = ms"
proof -
  obtain e f where ms: "ms = [e, f]"
    using assms(2) by (auto simp: length_Suc_conv numeral_eq_Suc)
  have d: "is_digit e" "is_digit f" using assms(1) by (simp_all add: ms)
  show ?thesis
  proof (cases "e = CHR ''0''")
    case True
    then show ?thesis
      using d by (simp add: ms is_digit_zero string_of_nat.simps [of "digit_val f"]
          digit_val_less digit_char_digit_val padStart2_def)
  next
    case False
    then have "string_of_nat (foldl (\<lambda>n c. 10 * n + digit_val c) 0 ms) = ms"
      using d by (intro string_of_nat_value) (simp_all add: ms)
    then show ?thesis by (simp add: padStart2_def ms)
  qed
qed

lemma month_key_YYYY_MM:
  assumes "list_all is_digit ys" "length ys = 4" "hd ys \<noteq> CHR ''0''"
    and "list_all is_digit ms" "length ms = 2"
  shows "\<exists>y m. parse_month_key (ys @ ''-'' @ ms) = Some (y, m) \<and> 1000 \<le> y \<and> y \<le> 9999
           \<and> month_key (int y) m = ys @ ''-'' @ ms"
proof -
  let ?y = "foldl (\<lambda>n c. 10 * n + digit_val c) 0 ys"
  let ?m = "foldl (\<lambda>n c. 10 * n + digit_val c) 0 ms"
  have ne: "ys \<noteq> []" using assms(2) by auto
  have k: "month_key (int ?y) ?m = ys @ ''-'' @ ms"
    using string_of_nat_value [OF ne assms(1,3)] padStart2_2_digits [OF assms(4,5)]
    by (simp add: month_key_def string_of_int_def)
  have "parse_month_key (month_key (int ?y) ?m) = Some (?y, ?m)"
    by (rule parse_month_key_month_key)
  with k value_4_digits [OF assms(1-3)] show ?thesis by auto
qed

subsection \<open>Aggregation\<close>

lemma opt_plus_None_right [simp]: "opt_plus x None = x"
  by (cases x) simp_all


lemma opt_plus_commute: "opt_plus x y = opt_plus y x"
  by (cases x; cases y) simp_all










subsection \<open>Edits, undo and the combined bucket\<close>

lemma get_set_bucket [simp]:
  "get_bucket k' (set_bucket k v b) = (if k' = k then v else get_bucket k' b)"
  by (cases k; cases k') simp_all

text \<open>
  C5, at the specification's own scenario. With no breakdown open, adding 200 to the
  expense Rent (1000) stores 1200 and registers the undo action with the prior value
  1000. The action calls \<open>updateAmount\<close>, which returns at once because
  \<open>breakdown.bucket\<close> is \<open>null\<close> in the render that created it: after Undo, Rent is
  still 1200 and the cash flow still 1800, not 1000 and 2000.
\<close>

theorem addItem_undo_is_lost:
  "addItem (render_of scenario_state) (Some Expense) ''Rent'' [] (Num 200) True scenario_state
     = scenario_state
         \<lparr>data := \<lparr>months = [(''2024-01'',
              \<lparr>income = [(''Salary'', 3000)], saving = [], investment = [],
               expense = [(''Rent'', 1200)]\<rparr>)]\<rparr>,
          snackbar := Some (Undo (render_of scenario_state) ''Rent'' 1000)\<rparr>
   \<and> clickUndo (addItem (render_of scenario_state) (Some Expense) ''Rent'' [] (Num 200) True
                 scenario_state)
     = Some (scenario_state
         \<lparr>data := \<lparr>months = [(''2024-01'',
              \<lparr>income = [(''Salary'', 3000)], saving = [], investment = [],
               expense = [(''Rent'', 1200)]\<rparr>)]\<rparr>\<rparr>)
   \<and> cashFlow (aggregated [''2024-01''] (data scenario_state)) = 2000
   \<and> cashFlow (aggregated [''2024-01'']
        \<lparr>months = [(''2024-01'',
              \<lparr>income = [(''Salary'', 3000)], saving = [], investment = [],
               expense = [(''Rent'', 1200)]\<rparr>)]\<rparr>) = 1800"
proof -
  have a: "addItem (render_of scenario_state) (Some Expense) ''Rent'' [] (Num 200) True scenario_state
     = scenario_state
         \<lparr>data := \<lparr>months = [(''2024-01'',
              \<lparr>income = [(''Salary'', 3000)], saving = [], investment = [],
               expense = [(''Rent'', 1200)]\<rparr>)]\<rparr>,
          snackbar := Some (Undo (render_of scenario_state) ''Rent'' 1000)\<rparr>"
    by (simp add: addItem_def render_of_def scenario_state_def add_data_def month_or_empty_def
        currentMonthBucket_def Let_def)
  have b: "r_bucket (render_of scenario_state) = None"
    by (simp add: render_of_def scenario_state_def)
  have u: "clickUndo (addItem (render_of scenario_state) (Some Expense) ''Rent'' [] (Num 200) True
                 scenario_state)
     = Some (scenario_state
         \<lparr>data := \<lparr>months = [(''2024-01'',
              \<lparr>income = [(''Salary'', 3000)], saving = [], investment = [],
               expense = [(''Rent'', 1200)]\<rparr>)]\<rparr>\<rparr>)"
    unfolding a by (simp add: clickUndo_def updateAmount_def b) (simp add: scenario_state_def)
  have c: "cashFlow (aggregated [''2024-01''] (data scenario_state)) = 2000"
    "cashFlow (aggregated [''2024-01'']
        \<lparr>months = [(''2024-01'',
              \<lparr>income = [(''Salary'', 3000)], saving = [], investment = [],
               expense = [(''Rent'', 1200)]\<rparr>)]\<rparr>) = 1800"
    by (simp_all add: cashFlow_def aggregated_def scenario_state_def add_month_def add_entry_def
        sum_obj_def)
  from a u c show ?thesis by blast
qed

text \<open>
  The same happens for every new entry made while no breakdown is open: Undo only clears
  the snackbar.
\<close>

lemma addItem_undo_without_breakdown:
  assumes "r_bucket r = None"
    and "(if newOther \<noteq> [] \<and> trim newOther \<noteq> [] then trim newOther else newCat) \<noteq> []"
  shows "clickUndo (addItem r (Some k) newCat newOther (Num a) remember s)
         = Some ((addItem r (Some k) newCat newOther (Num a) remember s)\<lparr>snackbar := None\<rparr>)"
  using assms by (simp add: addItem_def clickUndo_def updateAmount_def Let_def)

text \<open>
  In the combined view the prior value is the sum over saving and investment, while the
  write goes to one of them. With Cash at 100 in saving and 50 in investment, an edit to
  200 followed by Undo leaves 150 in saving and 50 in investment: 200 in the combined
  view, which showed 150 before the edit.
\<close>

lemma combined_edit_undo_not_restored:
  "updateAmount (render_of both_cash_state) ''Cash'' (Num 200) both_cash_state
     = Some (both_cash_state
         \<lparr>data := \<lparr>months = [(''2024-01'',
              \<lparr>income = [], saving = [(''Cash'', 200)], investment = [(''Cash'', 50)],
               expense = []\<rparr>)]\<rparr>,
          snackbar := Some (Undo (render_of both_cash_state) ''Cash'' 150)\<rparr>)
   \<and> clickUndo (both_cash_state
         \<lparr>data := \<lparr>months = [(''2024-01'',
              \<lparr>income = [], saving = [(''Cash'', 200)], investment = [(''Cash'', 50)],
               expense = []\<rparr>)]\<rparr>,
          snackbar := Some (Undo (render_of both_cash_state) ''Cash'' 150)\<rparr>)
     = Some (both_cash_state
         \<lparr>data := \<lparr>months = [(''2024-01'',
              \<lparr>income = [], saving = [(''Cash'', 150)], investment = [(''Cash'', 50)],
               expense = []\<rparr>)]\<rparr>\<rparr>)"
  by (simp add: clickUndo_def updateAmount_def render_of_def both_cash_state_def update_data_def
      applyTo_def month_or_empty_def oldVal_def currentMonthBucket_def Let_def)

lemma update_data_month:
  "map_of (months (update_data r b cat v d)) (r_selectedMonth r)
   = Some (let base = month_or_empty (r_TEMPLATES r) (r_selectedMonth r) d;
               k = (case b of Bucket k \<Rightarrow> k | SavingInvest \<Rightarrow> owner_of base (r_TEMPLATES r) cat)
           in set_bucket k (AList.update cat v (get_bucket k base)) base)"
  by (cases b)
     (auto simp: update_data_def applyTo_def owner_of_def Let_def update_conv' map_of_eq_None_iff)

lemma update_data_value:
  "or0 (map_of (get_bucket k (month_or_empty t (r_selectedMonth r)
          (update_data r (Bucket k) cat v d))) cat) = v"
  using update_data_month [of r "Bucket k" cat v d]
  by (simp add: month_or_empty_def Let_def update_conv')

text \<open>
  An edit in the breakdown of a single bucket is undone: when the render is the current
  one, Undo brings the category back to the value it had.
\<close>

lemma updateAmount_undo_single_bucket:
  assumes "r_bucket r = Some (Bucket k)" "r_data r = data s" "stored_amount n = Some v"
  shows "\<exists>s1 s2. updateAmount r cat n s = Some s1 \<and> clickUndo s1 = Some s2
           \<and> or0 (map_of (get_bucket k
                 (month_or_empty (r_TEMPLATES r) (r_selectedMonth r) (data s2))) cat)
             = or0 (map_of (get_bucket k
                 (month_or_empty (r_TEMPLATES r) (r_selectedMonth r) (data s))) cat)"
  using assms
  by (simp add: updateAmount_def clickUndo_def update_data_value oldVal_def
      currentMonthBucket_def)

text \<open>The same for a delete: the amount becomes 0, and Undo brings the old value back.\<close>

lemma deleteAmount_undo_single_bucket:
  assumes "r_bucket r = Some (Bucket k)" "r_data r = data s"
  shows "\<exists>s1 s2. deleteAmount r cat s = Some s1 \<and> clickUndo s1 = Some s2
           \<and> or0 (map_of (get_bucket k
                 (month_or_empty (r_TEMPLATES r) (r_selectedMonth r) (data s1))) cat) = 0
           \<and> or0 (map_of (get_bucket k
                 (month_or_empty (r_TEMPLATES r) (r_selectedMonth r) (data s2))) cat)
             = or0 (map_of (get_bucket k
                 (month_or_empty (r_TEMPLATES r) (r_selectedMonth r) (data s))) cat)"
  using assms
  by (simp add: deleteAmount_def updateAmount_def clickUndo_def update_data_value oldVal_def
      currentMonthBucket_def)

text \<open>
  C8. An edit through the combined saving+investment breakdown writes the new value under
  the category in exactly one bucket of the selected month's record (the stored record, or
  the zero-filled template when the month has none) and leaves the rest of that record as
  it was. The bucket is \<open>owner_of\<close>: saving if the record's saving bucket has the key, else
  investment if its investment bucket has the key, else saving if the saving template
  lists the category, else investment.
\<close>

theorem updateAmount_combined_owner:
  assumes "r_bucket r = Some SavingInvest" and "stored_amount n = Some v"
  shows "\<exists>s'. updateAmount r cat n s = Some s'
           \<and> map_of (months (data s')) (r_selectedMonth r)
               = Some (let base = month_or_empty (r_TEMPLATES r) (r_selectedMonth r) (data s);
                           k = owner_of base (r_TEMPLATES r) cat
                       in set_bucket k (AList.update cat v (get_bucket k base)) base)"
  using assms update_data_month [of r SavingInvest cat v "data s"]
  by (simp add: updateAmount_def)

theorem updateAmount_combined_owner_witness:
  "r_bucket (render_of both_cash_state) = Some SavingInvest \<and> stored_amount (Num 200) = Some 200
   \<and> (\<exists>s'. updateAmount (render_of both_cash_state) ''Cash'' (Num 200) both_cash_state = Some s'
        \<and> map_of (months (data s')) ''2024-01''
            = Some \<lparr>income = [], saving = [(''Cash'', 200)], investment = [(''Cash'', 50)],
                    expense = []\<rparr>)"
proof -
  have h: "r_bucket (render_of both_cash_state) = Some SavingInvest" "stored_amount (Num 200) = Some 200"
    by (simp_all add: render_of_def both_cash_state_def)
  have e: "(let base = month_or_empty (r_TEMPLATES (render_of both_cash_state))
                 ''2024-01'' (data both_cash_state);
                k = owner_of base (r_TEMPLATES (render_of both_cash_state)) ''Cash''
            in set_bucket k (AList.update ''Cash'' 200 (get_bucket k base)) base)
           = \<lparr>income = [], saving = [(''Cash'', 200)], investment = [(''Cash'', 50)], expense = []\<rparr>"
    by (simp add: render_of_def both_cash_state_def month_or_empty_def owner_of_def Let_def)
  have s: "r_selectedMonth (render_of both_cash_state) = ''2024-01''"
    by (simp add: render_of_def both_cash_state_def)
  from updateAmount_combined_owner [OF h, of "''Cash''" both_cash_state]
  obtain s' where "updateAmount (render_of both_cash_state) ''Cash'' (Num 200) both_cash_state = Some s'"
    and "map_of (months (data s')) (r_selectedMonth (render_of both_cash_state))
         = Some (let base = month_or_empty (r_TEMPLATES (render_of both_cash_state))
                 (r_selectedMonth (render_of both_cash_state)) (data both_cash_state);
                k = owner_of base (r_TEMPLATES (render_of both_cash_state)) ''Cash''
            in set_bucket k (AList.update ''Cash'' 200 (get_bucket k base)) base)"
    by blast
  then have "updateAmount (render_of both_cash_state) ''Cash'' (Num 200) both_cash_state = Some s'
        \<and> map_of (months (data s')) ''2024-01''
            = Some \<lparr>income = [], saving = [(''Cash'', 200)], investment = [(''Cash'', 50)],
                    expense = []\<rparr>"
    by (simp only: s e)
  with h show ?thesis by blast
qed

lemma owner_of_examples:
  "owner_of \<lparr>income = [], saving = [], investment = [(''Cash'', 50)], expense = []\<rparr>
     BASE_TEMPLATES ''Cash'' = Investment"
  "owner_of \<lparr>income = [], saving = [], investment = [], expense = []\<rparr> BASE_TEMPLATES ''Cash''
     = Saving"
  "owner_of \<lparr>income = [], saving = [], investment = [], expense = []\<rparr> BASE_TEMPLATES ''Gold''
     = Investment"
  by (simp_all add: owner_of_def BASE_TEMPLATES_def)

subsection \<open>Input that is not a finite number\<close>

text \<open>
  C4, as the code has it. Creating an entry with no kind, with an amount that is not a
  finite number, or with an empty category (the trimmed custom name, else the selected
  name) changes nothing: no store is set and no undo action registered. Editing has no
  such guard. It does nothing only when no breakdown bucket is open; an amount of \<open>NaN\<close>
  is stored as 0, like an edit to 0, and the undo action is registered.
\<close>

theorem addItem_guard_updateAmount_coerces:
  "((kind = None \<or> (\<forall>a. amt \<noteq> Num a)
       \<or> (if newOther \<noteq> [] \<and> trim newOther \<noteq> [] then trim newOther else newCat) = [])
      \<longrightarrow> addItem r kind newCat newOther amt rememberSubheading s = s)
   \<and> updateAmount r cat NaN s = updateAmount r cat (Num 0) s
   \<and> (r_bucket r = None \<longrightarrow> updateAmount r cat n s = Some s)
   \<and> (r_bucket r = Some b \<longrightarrow>
        updateAmount r cat NaN s
          = Some (s\<lparr>data := update_data r b cat 0 (data s),
                    snackbar := Some (Undo r cat (oldVal r b cat))\<rparr>))"
proof (intro conjI impI)
  assume "kind = None \<or> (\<forall>a. amt \<noteq> Num a)
       \<or> (if newOther \<noteq> [] \<and> trim newOther \<noteq> [] then trim newOther else newCat) = []"
  then show "addItem r kind newCat newOther amt rememberSubheading s = s"
    by (cases kind; cases amt) (auto simp: addItem_def Let_def)
next
  show "updateAmount r cat NaN s = updateAmount r cat (Num 0) s"
    by (simp add: updateAmount_def split: option.splits)
next
  assume "r_bucket r = None"
  then show "updateAmount r cat n s = Some s" by (simp add: updateAmount_def)
next
  assume "r_bucket r = Some b"
  then show "updateAmount r cat NaN s
          = Some (s\<lparr>data := update_data r b cat 0 (data s),
                    snackbar := Some (Undo r cat (oldVal r b cat))\<rparr>)"
    by (simp add: updateAmount_def)
qed

theorem addItem_guard_updateAmount_coerces_witness:
  "addItem (render_of scenario_state) (Some Expense) ''Rent'' [] PosInfinity True scenario_state
     = scenario_state
   \<and> addItem (render_of scenario_state) (Some Expense) [] ''  '' (Num 5) True scenario_state
     = scenario_state
   \<and> updateAmount (render_of scenario_state) ''Rent'' (Num 7) scenario_state = Some scenario_state
   \<and> updateAmount (render_of expense_open_state) ''Rent'' NaN expense_open_state
     = Some (expense_open_state
          \<lparr>data := update_data (render_of expense_open_state) (Bucket Expense) ''Rent'' 0
                     (data expense_open_state),
           snackbar := Some (Undo (render_of expense_open_state) ''Rent''
                     (oldVal (render_of expense_open_state) (Bucket Expense) ''Rent''))\<rparr>)"
proof -
  have t: "trim ''  '' = []" by (simp add: trim_def is_space_def)
  have b0: "r_bucket (render_of scenario_state) = None"
    by (simp add: render_of_def scenario_state_def)
  have b1: "r_bucket (render_of expense_open_state) = Some (Bucket Expense)"
    by (simp add: render_of_def expense_open_state_def)
  note w1 = addItem_guard_updateAmount_coerces [of "Some Expense" PosInfinity "[]" "''Rent''"
        "render_of scenario_state" True scenario_state "''Rent''" "Num 7" "Bucket Expense"]
  note w2 = addItem_guard_updateAmount_coerces [of "Some Expense" "Num 5" "''  ''" "[]"
        "render_of scenario_state" True scenario_state "''Rent''" "Num 7" "Bucket Expense"]
  note w3 = addItem_guard_updateAmount_coerces [of "Some Expense" "Num 5" "''  ''" "[]"
        "render_of expense_open_state" True expense_open_state "''Rent''" "Num 7" "Bucket Expense"]
  have 1: "addItem (render_of scenario_state) (Some Expense) ''Rent'' [] PosInfinity True
             scenario_state = scenario_state"
    using w1 by simp
  have 2: "addItem (render_of scenario_state) (Some Expense) [] ''  '' (Num 5) True scenario_state
     = scenario_state"
    using w2 by (simp add: t)
  have 3: "updateAmount (render_of scenario_state) ''Rent'' (Num 7) scenario_state
     = Some scenario_state"
    using w1 b0 by blast
  have 4: "updateAmount (render_of expense_open_state) ''Rent'' NaN expense_open_state
     = Some (expense_open_state
          \<lparr>data := update_data (render_of expense_open_state) (Bucket Expense) ''Rent'' 0
                     (data expense_open_state),
           snackbar := Some (Undo (render_of expense_open_state) ''Rent''
                     (oldVal (render_of expense_open_state) (Bucket Expense) ''Rent''))\<rparr>)"
    using w3 b1 by blast
  from 1 2 3 4 show ?thesis by blast
qed

text \<open>
  An edit of Rent (1000) with the amount \<open>NaN\<close>, expense breakdown open: the ledger now
  holds 0 and the snackbar holds an undo action.
\<close>

theorem updateAmount_NaN_counterexample:
  "updateAmount (render_of expense_open_state) ''Rent'' NaN expense_open_state
     = Some (expense_open_state
          \<lparr>data := \<lparr>months = [(''2024-01'',
               \<lparr>income = [(''Salary'', 3000)], saving = [], investment = [],
                expense = [(''Rent'', 0)]\<rparr>)]\<rparr>,
           snackbar := Some (Undo (render_of expense_open_state) ''Rent'' 1000)\<rparr>)
   \<and> updateAmount (render_of expense_open_state) ''Rent'' NaN expense_open_state
     \<noteq> Some expense_open_state"
  by (simp add: updateAmount_def render_of_def expense_open_state_def scenario_state_def
      update_data_def applyTo_def month_or_empty_def oldVal_def currentMonthBucket_def Let_def)

subsection \<open>Templates and month records\<close>

lemma emptyMonth_covers: "c \<in> set (get_bucket k t) \<Longrightarrow> map_of (get_bucket k (emptyMonth t)) c = Some 0"
  by (cases k) (simp_all add: emptyMonth_def map_of_zero_entries)

lemma entries_kept_refl: "entries_kept d d"
  by (simp add: entries_kept_def)

lemma entries_kept_write:
  assumes "base = month_or_empty t m d"
  shows "entries_kept d (d\<lparr>months := AList.update m
            (set_bucket k (AList.update cat v (get_bucket k base)) base) (months d)\<rparr>)"
  using assms
  by (auto simp: entries_kept_def update_conv' month_or_empty_def)

lemma entries_kept_update_data: "entries_kept d (update_data r b cat v d)"
  by (cases b)
     (simp_all add: update_data_def applyTo_def Let_def entries_kept_write
        del: set_bucket.simps get_bucket.simps)

lemma entries_kept_add_data: "entries_kept d (add_data r k cat a d)"
  by (simp add: add_data_def Let_def entries_kept_write del: set_bucket.simps get_bucket.simps)

lemma entries_kept_ensureMonth: "entries_kept d (ensureMonth t m d)"
  by (auto simp: entries_kept_def ensureMonth_def createMonth_def Let_def update_conv'
      split: option.splits)

lemma created_covers:
  assumes "map_of (months d) m = None"
  shows "\<exists>rec. map_of (months (ensureMonth t m d)) m = Some rec
           \<and> (\<forall>k. \<forall>c \<in> set (get_bucket k t). map_of (get_bucket k rec) c \<noteq> None)"
proof -
  have "map_of (get_bucket k (emptyMonth t)) c \<noteq> None" if "c \<in> set (get_bucket k t)" for k c
    using emptyMonth_covers [OF that] by simp
  then have e: "\<And>c. c \<in> set (get_bucket k t) \<Longrightarrow> \<exists>y. map_of (get_bucket k (emptyMonth t)) c = Some y" for k
    by auto
  show ?thesis
    using assms e [of _ Saving] e [of _ Investment] e [of _ Income] e [of _ Expense]
    apply (simp add: ensureMonth_def createMonth_def Let_def update_conv')
    apply (rule allI)
    subgoal for k
      by (cases k) (auto simp: map_of_spread map_add_def split: option.splits)
    done
qed

text \<open>
  C9, as the code has it. The first ledger satisfies the invariant. A month record created
  on selection has an entry, in each bucket, for every category that the template lists at
  that moment. Creating a month, adding an entry and editing an entry keep every entry
  of every existing month record. Nothing adds entries to the records of other months
  when a custom category is remembered.
\<close>

theorem templates_covered_at_creation:
  "template_invariant (initial_state key)
   \<and> (map_of (months d) m = None \<longrightarrow>
        (\<exists>rec. map_of (months (ensureMonth t m d)) m = Some rec
           \<and> (\<forall>k. \<forall>c \<in> set (get_bucket k t). map_of (get_bucket k rec) c \<noteq> None)))
   \<and> entries_kept d (ensureMonth t m d)
   \<and> entries_kept (data s) (data (addItem r kind newCat newOther amt remember s))
   \<and> (updateAmount r cat n s = Some s' \<longrightarrow> entries_kept (data s) (data s'))"
proof (intro conjI impI)
  show "template_invariant (initial_state key)"
    using emptyMonth_covers [of _ _ "TEMPLATES no_templates"]
    by (auto simp: template_invariant_def initial_state_def createInitialData_def
        simp del: get_bucket.simps)
next
  assume "map_of (months d) m = None"
  then show "\<exists>rec. map_of (months (ensureMonth t m d)) m = Some rec
           \<and> (\<forall>k. \<forall>c \<in> set (get_bucket k t). map_of (get_bucket k rec) c \<noteq> None)"
    by (rule created_covers)
next
  show "entries_kept d (ensureMonth t m d)" by (rule entries_kept_ensureMonth)
next
  show "entries_kept (data s) (data (addItem r kind newCat newOther amt remember s))"
    by (cases kind; cases amt)
       (simp_all add: addItem_def Let_def entries_kept_refl entries_kept_add_data)
next
  assume "updateAmount r cat n s = Some s'"
  then show "entries_kept (data s) (data s')"
    by (auto simp: updateAmount_def entries_kept_refl entries_kept_update_data
        split: option.splits)
qed

lemma parse_2024_01: "parse_month_key ''2024-01'' = Some (2024, 1)"
  by (simp add: parse_month_key_def Number_digits_def is_digit_def digit_val_def)

lemma shift_to_2024_02:
  "shiftMonth 1 (initial_state ''2024-01'') = Some (selectMonth ''2024-02'' (initial_state ''2024-01''))"
  using month_keys_fy2023(11)
  by (simp add: numeral_2_eq_2 shiftMonth_def shifted_key_def initial_state_def parse_2024_01 key_of_Date_def
      Date_ym_def)

lemma TEMPLATES_none: "TEMPLATES no_templates = BASE_TEMPLATES"
  by (simp add: TEMPLATES_def no_templates_def BASE_TEMPLATES_def)

lemma gym_state_months:
  "map_of (months (data gym_state)) ''2024-01'' = Some (emptyMonth BASE_TEMPLATES)"
  by (simp add: gym_state_def selectMonth_def initial_state_def createInitialData_def
      ensureMonth_def createMonth_def addItem_def add_data_def render_of_def trim_def is_space_def
      month_or_empty_def update_conv' TEMPLATES_none Let_def)

lemma gym_state_templates: "expense (userTemplates gym_state) = [''Gym'']"
  by (simp add: gym_state_def selectMonth_def initial_state_def addItem_def trim_def is_space_def
      no_templates_def Let_def)

lemma gym_not_in_base: "map_of (expense (emptyMonth BASE_TEMPLATES)) ''Gym'' = None"
  by (simp add: emptyMonth_def BASE_TEMPLATES_def fromEntries_def spread_def)

text \<open>
  The state \<open>gym_state\<close> is reached from the first render by the Next button and one new
  entry. The expense template now lists Gym, and the record of 2024-01 has no such entry.
\<close>

theorem template_invariant_counterexample:
  "shiftMonth 1 (initial_state ''2024-01'') = Some (selectMonth ''2024-02'' (initial_state ''2024-01''))
   \<and> gym_state = addItem (render_of (selectMonth ''2024-02'' (initial_state ''2024-01'')))
        (Some Expense) [] ''Gym'' (Num 10) True (selectMonth ''2024-02'' (initial_state ''2024-01''))
   \<and> \<not> template_invariant gym_state"
proof -
  have "(''2024-01'', emptyMonth BASE_TEMPLATES) \<in> set (months (data gym_state))"
    using gym_state_months by (rule map_of_SomeD)
  moreover have "''Gym'' \<in> set (expense (TEMPLATES (userTemplates gym_state)))"
    by (simp add: TEMPLATES_def gym_state_templates)
  ultimately have "\<not> template_invariant gym_state"
  proof -
    assume m: "(''2024-01'', emptyMonth BASE_TEMPLATES) \<in> set (months (data gym_state))"
      and g: "''Gym'' \<in> set (expense (TEMPLATES (userTemplates gym_state)))"
    show ?thesis
    proof
      assume "template_invariant gym_state"
      then have "\<forall>k \<in> {Income, Saving, Investment, Expense}.
          \<forall>c \<in> set (get_bucket k (TEMPLATES (userTemplates gym_state))).
            map_of (get_bucket k (emptyMonth BASE_TEMPLATES)) c \<noteq> None"
        unfolding template_invariant_def using m by blast
      then have "\<forall>c \<in> set (get_bucket Expense (TEMPLATES (userTemplates gym_state))).
            map_of (get_bucket Expense (emptyMonth BASE_TEMPLATES)) c \<noteq> None"
        by blast
      with g have "map_of (expense (emptyMonth BASE_TEMPLATES)) ''Gym'' \<noteq> None" by simp
      with gym_not_in_base show False by simp
    qed
  qed
  then show ?thesis
    using shift_to_2024_02 by (simp add: gym_state_def Let_def)
qed

theorem templates_covered_at_creation_witness:
  "template_invariant (initial_state ''2024-01'')
   \<and> map_of (months ledger_2024_03) ''2024-04'' = None
   \<and> (\<exists>rec. map_of (months (ensureMonth BASE_TEMPLATES ''2024-04'' ledger_2024_03)) ''2024-04'' = Some rec
           \<and> (\<forall>k. \<forall>c \<in> set (get_bucket k BASE_TEMPLATES). map_of (get_bucket k rec) c \<noteq> None))
   \<and> updateAmount (render_of scenario_state) ''Rent'' (Num 7) scenario_state = Some scenario_state
   \<and> entries_kept (data scenario_state) (data scenario_state)"
proof -
  have a: "map_of (months ledger_2024_03) ''2024-04'' = None"
    by (simp add: ledger_2024_03_def)
  have u: "updateAmount (render_of scenario_state) ''Rent'' (Num 7) scenario_state = Some scenario_state"
    by (simp add: updateAmount_def render_of_def scenario_state_def)
  note w = templates_covered_at_creation [of "''2024-01''" ledger_2024_03 "''2024-04''"
      BASE_TEMPLATES scenario_state "render_of scenario_state" None "[]" "[]" NaN True
      "''Rent''" "Num 7" scenario_state]
  from w a u show ?thesis by blast
qed

subsection \<open>Resetting the templates\<close>

text \<open>
  The effect that ensures the selected month runs again when the templates change; it
  leaves the ledger as it is when the selected month has a record.
\<close>

lemma ensureMonth_existing: "map_of (months d) m = Some r \<Longrightarrow> ensureMonth t m d = d"
  by (simp add: ensureMonth_def)



subsection \<open>Backup and import\<close>













end
